theory Spec2Isabelle
  imports Main "HOL-Library.Word"
begin

section \<open>Package wire: the filteradd and getcfilters messages\<close>

text \<open>
  The messages of \<^verbatim>\<open>wire/msgfilteradd.go\<close> and \<^verbatim>\<open>wire/msggetcfilters.go\<close> are
  embedded function by function. A Go method that mutates its receiver and returns an
  \<^verbatim>\<open>error\<close> becomes a function that returns the error (\<open>None\<close> for \<^verbatim>\<open>nil\<close>), the
  updated message and the updated reader or writer.
\<close>

type_synonym byte = "8 word"
type_synonym uint32 = "32 word"

text \<open>
  Errors are values. \<open>MessageError f\<close> is what \<^verbatim>\<open>messageError(f, str)\<close> builds; its
  first argument names the function that failed. The formatted description is not kept.
  The other constructors are the errors of Go's \<^verbatim>\<open>io\<close> package that a reader or a
  writer hands back.
\<close>

datatype error =
    MessageError string
  | EOF
  | ErrUnexpectedEOF
  | ErrShortWrite
  | ErrClosedPipe

datatype MessageEncoding = BaseEncoding | WitnessEncoding

text \<open>\<^verbatim>\<open>chainhash.Hash\<close> is the array type \<^verbatim>\<open>[32]byte\<close>.\<close>

typedef Hash = "{bs :: byte list. length bs = 32}"
  by (rule exI [of _ "replicate 32 0"]) simp

setup_lifting type_definition_Hash

text \<open>
  The two message files call helpers and use a constant of package wire that live in
  files outside the embedded sources (\<^verbatim>\<open>common.go\<close>, \<^verbatim>\<open>protocol.go\<close>):
  \<^verbatim>\<open>BIP0037Version\<close>, \<^verbatim>\<open>WriteVarBytes\<close>, \<^verbatim>\<open>ReadVarBytes\<close>, \<^verbatim>\<open>writeElement\<close> and
  \<^verbatim>\<open>readElement\<close>. They are taken as parameters, collected in one record, so that every
  result below holds for whatever these helpers do, subject only to the hypotheses a
  theorem states about them. \<open>'w\<close> is the state of the \<^verbatim>\<open>io.Writer\<close>, \<open>'r\<close> the state
  of the \<^verbatim>\<open>io.Reader\<close>.

  \<^verbatim>\<open>writeElement\<close> and \<^verbatim>\<open>readElement\<close> take an \<^verbatim>\<open>interface{}\<close> and dispatch on its
  dynamic type; the record has one field for each type they are called at
  (\<^verbatim>\<open>writeElement\<close> with a \<^verbatim>\<open>FilterType\<close>, a \<^verbatim>\<open>*uint32\<close> and a \<^verbatim>\<open>*chainhash.Hash\<close>,
  \<^verbatim>\<open>readElement\<close> with a pointer to each of the three).
  A read helper gets the old value behind the pointer and returns the new one together
  with the error, as the Go function leaves both behind.
\<close>

record ('w, 'r) wire =
  BIP0037Version :: uint32
  WriteVarBytes :: "'w \<Rightarrow> uint32 \<Rightarrow> byte list \<Rightarrow> error option \<times> 'w"
  ReadVarBytes :: "'r \<Rightarrow> uint32 \<Rightarrow> uint32 \<Rightarrow> string \<Rightarrow> (byte list \<times> error option) \<times> 'r"
  writeElement_FilterType :: "'w \<Rightarrow> byte \<Rightarrow> error option \<times> 'w"
  writeElement_uint32 :: "'w \<Rightarrow> uint32 \<Rightarrow> error option \<times> 'w"
  writeElement_Hash :: "'w \<Rightarrow> Hash \<Rightarrow> error option \<times> 'w"
  readElement_FilterType :: "'r \<Rightarrow> byte \<Rightarrow> (byte \<times> error option) \<times> 'r"
  readElement_uint32 :: "'r \<Rightarrow> uint32 \<Rightarrow> (uint32 \<times> error option) \<times> 'r"
  readElement_Hash :: "'r \<Rightarrow> Hash \<Rightarrow> (Hash \<times> error option) \<times> 'r"

subsection \<open>MsgFilterAdd\<close>

definition MaxFilterAddDataSize :: nat where
  "MaxFilterAddDataSize = 520"

record MsgFilterAdd =
  Data :: "byte list"

definition MsgFilterAdd_BronDecode ::
  "('w, 'r) wire \<Rightarrow> MsgFilterAdd \<Rightarrow> 'r \<Rightarrow> uint32 \<Rightarrow> MessageEncoding
    \<Rightarrow> error option \<times> MsgFilterAdd \<times> 'r" where
  "MsgFilterAdd_BronDecode wr msg r pver enc =
     (if pver < BIP0037Version wr
      then (Some (MessageError ''MsgFilterAdd.BronDecode''), msg, r)
      else (case ReadVarBytes wr r pver (of_nat MaxFilterAddDataSize) ''filteradd data'' of
              ((d, err), r') \<Rightarrow> (err, msg\<lparr>Data := d\<rparr>, r')))"

definition MsgFilterAdd_BronEncode ::
  "('w, 'r) wire \<Rightarrow> MsgFilterAdd \<Rightarrow> 'w \<Rightarrow> uint32 \<Rightarrow> MessageEncoding
    \<Rightarrow> error option \<times> 'w" where
  "MsgFilterAdd_BronEncode wr msg w pver enc =
     (if pver < BIP0037Version wr
      then (Some (MessageError ''MsgFilterAdd.BronEncode''), w)
      else (let size = length (Data msg) in
            if size > MaxFilterAddDataSize
            then (Some (MessageError ''MsgFilterAdd.BronEncode''), w)
            else WriteVarBytes wr w pver (Data msg)))"

definition NewMsgFilterAdd :: "byte list \<Rightarrow> MsgFilterAdd" where
  "NewMsgFilterAdd d = \<lparr>Data = d\<rparr>"

subsection \<open>MsgGetCFilters\<close>

text \<open>\<^verbatim>\<open>FilterType\<close> is a \<^verbatim>\<open>uint8\<close>.\<close>

record MsgGetCFilters =
  FilterType :: byte
  StartHeight :: uint32
  StopHash :: Hash

text \<open>
  Each \<^verbatim>\<open>readElement\<close> stores through its pointer before the error is looked at, and
  the first error ends the function.
\<close>

definition MsgGetCFilters_BronDecode ::
  "('w, 'r) wire \<Rightarrow> MsgGetCFilters \<Rightarrow> 'r \<Rightarrow> uint32 \<Rightarrow> MessageEncoding
    \<Rightarrow> error option \<times> MsgGetCFilters \<times> 'r" where
  "MsgGetCFilters_BronDecode wr msg r pver enc =
     (case readElement_FilterType wr r (FilterType msg) of
        ((ft, err1), r1) \<Rightarrow>
          let msg1 = msg\<lparr>FilterType := ft\<rparr> in
          if err1 \<noteq> None then (err1, msg1, r1)
          else (case readElement_uint32 wr r1 (StartHeight msg1) of
                  ((sh, err2), r2) \<Rightarrow>
                    let msg2 = msg1\<lparr>StartHeight := sh\<rparr> in
                    if err2 \<noteq> None then (err2, msg2, r2)
                    else (case readElement_Hash wr r2 (StopHash msg2) of
                            ((h, err3), r3) \<Rightarrow> (err3, msg2\<lparr>StopHash := h\<rparr>, r3))))"

definition MsgGetCFilters_BronEncode ::
  "('w, 'r) wire \<Rightarrow> MsgGetCFilters \<Rightarrow> 'w \<Rightarrow> uint32 \<Rightarrow> MessageEncoding
    \<Rightarrow> error option \<times> 'w" where
  "MsgGetCFilters_BronEncode wr msg w pver enc =
     (case writeElement_FilterType wr w (FilterType msg) of
        (err1, w1) \<Rightarrow>
          if err1 \<noteq> None then (err1, w1)
          else (case writeElement_uint32 wr w1 (StartHeight msg) of
                  (err2, w2) \<Rightarrow>
                    if err2 \<noteq> None then (err2, w2)
                    else writeElement_Hash wr w2 (StopHash msg)))"

definition NewMsgGetCFilters :: "byte \<Rightarrow> uint32 \<Rightarrow> Hash \<Rightarrow> MsgGetCFilters" where
  "NewMsgGetCFilters filterType startHeight stopHash =
     \<lparr>FilterType = filterType, StartHeight = startHeight, StopHash = stopHash\<rparr>"

subsection \<open>What the messages need of the helpers\<close>

text \<open>
  The round trips below write into a byte buffer and read the bytes back, so writer and
  reader are both a list of bytes: the buffer's content, and the input not yet consumed.
  \<open>varbytes_roundtrip\<close> says that \<^verbatim>\<open>ReadVarBytes\<close>, called with the limit
  \<open>maxAllowed\<close>, gives back what \<^verbatim>\<open>WriteVarBytes\<close> wrote at the same protocol version,
  for every payload within the limit, and consumes exactly the bytes written.
  \<open>elements_roundtrip\<close> says the same of \<^verbatim>\<open>readElement\<close> and \<^verbatim>\<open>writeElement\<close> at the
  three types \<^verbatim>\<open>MsgGetCFilters\<close> uses.
\<close>

definition varbytes_roundtrip :: "(byte list, byte list) wire \<Rightarrow> uint32 \<Rightarrow> string \<Rightarrow> bool" where
  "varbytes_roundtrip wr maxAllowed fieldName \<longleftrightarrow>
     (\<forall>pver d buf. length d \<le> unat maxAllowed \<longrightarrow>
        (\<exists>bs. WriteVarBytes wr buf pver d = (None, buf @ bs) \<and>
           (\<forall>rest. ReadVarBytes wr (bs @ rest) pver maxAllowed fieldName = ((d, None), rest))))"

definition elements_roundtrip :: "(byte list, byte list) wire \<Rightarrow> bool" where
  "elements_roundtrip wr \<longleftrightarrow>
     (\<forall>buf v. \<exists>bs. writeElement_FilterType wr buf v = (None, buf @ bs) \<and>
        (\<forall>rest old. readElement_FilterType wr (bs @ rest) old = ((v, None), rest))) \<and>
     (\<forall>buf v. \<exists>bs. writeElement_uint32 wr buf v = (None, buf @ bs) \<and>
        (\<forall>rest old. readElement_uint32 wr (bs @ rest) old = ((v, None), rest))) \<and>
     (\<forall>buf v. \<exists>bs. writeElement_Hash wr buf v = (None, buf @ bs) \<and>
        (\<forall>rest old. readElement_Hash wr (bs @ rest) old = ((v, None), rest)))"


subsection \<open>An in-memory instance of the helpers\<close>

text \<open>
  The hypotheses on the helpers can be met: \<open>mem_wire\<close> is an instance over byte buffers
  that follows the protocol's encoding (a variable-length integer for the length of a
  byte string, little-endian integers, a hash as its 32 bytes). It serves to run the
  messages on concrete inputs. A hash is read straight into the array behind the
  pointer, so a short read leaves the bytes that did arrive in front of the old ones;
  an integer is stored only once it has been read in full. \<open>closed_wire\<close> is an instance whose writer is closed, so
  every write fails with \<^verbatim>\<open>io.ErrClosedPipe\<close>.
\<close>

fun le_bytes :: "nat \<Rightarrow> nat \<Rightarrow> byte list" where
  "le_bytes 0 n = []"
| "le_bytes (Suc k) n = of_nat (n mod 256) # le_bytes k (n div 256)"

fun le_nat :: "byte list \<Rightarrow> nat" where
  "le_nat [] = 0"
| "le_nat (b # bs) = unat b + 256 * le_nat bs"

definition short_read :: "byte list \<Rightarrow> error" where
  "short_read r = (if r = [] then EOF else ErrUnexpectedEOF)"

definition mem_WriteVarInt :: "nat \<Rightarrow> byte list" where
  "mem_WriteVarInt n =
     (if n < 0xfd then [of_nat n]
      else if n \<le> 0xffff then 0xfd # le_bytes 2 n
      else if n \<le> 0xffffffff then 0xfe # le_bytes 4 n
      else 0xff # le_bytes 8 n)"

definition mem_ReadVarInt :: "byte list \<Rightarrow> (nat \<times> error option) \<times> byte list" where
  "mem_ReadVarInt r =
     (case r of
        [] \<Rightarrow> ((0, Some EOF), [])
      | b # bs \<Rightarrow>
          if b < 0xfd then ((unat b, None), bs)
          else
            let k = (if b = 0xfd then 2 else if b = 0xfe then 4 else 8);
                least = (if b = 0xfd then 0xfd else if b = 0xfe then 0x10000 else 0x100000000)
            in if length bs < k then ((0, Some (short_read bs)), [])
               else if le_nat (take k bs) < least
                 then ((0, Some (MessageError ''ReadVarInt'')), drop k bs)
                 else ((le_nat (take k bs), None), drop k bs))"

definition mem_WriteVarBytes :: "byte list \<Rightarrow> uint32 \<Rightarrow> byte list \<Rightarrow> error option \<times> byte list" where
  "mem_WriteVarBytes buf pver d = (None, buf @ mem_WriteVarInt (length d) @ d)"

definition mem_ReadVarBytes ::
  "byte list \<Rightarrow> uint32 \<Rightarrow> uint32 \<Rightarrow> string \<Rightarrow> (byte list \<times> error option) \<times> byte list" where
  "mem_ReadVarBytes r pver maxAllowed fieldName =
     (case mem_ReadVarInt r of
        ((count, Some e), r') \<Rightarrow> (([], Some e), r')
      | ((count, None), r') \<Rightarrow>
          if count > unat maxAllowed then (([], Some (MessageError ''ReadVarBytes'')), r')
          else if length r' < count then (([], Some (short_read r')), [])
          else ((take count r', None), drop count r'))"

definition mem_writeElement_FilterType :: "byte list \<Rightarrow> byte \<Rightarrow> error option \<times> byte list" where
  "mem_writeElement_FilterType buf ft = (None, buf @ [ft])"

definition mem_writeElement_uint32 :: "byte list \<Rightarrow> uint32 \<Rightarrow> error option \<times> byte list" where
  "mem_writeElement_uint32 buf v = (None, buf @ le_bytes 4 (unat v))"

definition mem_writeElement_Hash :: "byte list \<Rightarrow> Hash \<Rightarrow> error option \<times> byte list" where
  "mem_writeElement_Hash buf h = (None, buf @ Rep_Hash h)"

definition mem_readElement_FilterType :: "byte list \<Rightarrow> byte \<Rightarrow> (byte \<times> error option) \<times> byte list" where
  "mem_readElement_FilterType r old =
     (case r of [] \<Rightarrow> ((old, Some EOF), []) | b # bs \<Rightarrow> ((b, None), bs))"

definition mem_readElement_uint32 :: "byte list \<Rightarrow> uint32 \<Rightarrow> (uint32 \<times> error option) \<times> byte list" where
  "mem_readElement_uint32 r old =
     (if length r < 4 then ((old, Some (short_read r)), [])
      else ((of_nat (le_nat (take 4 r)), None), drop 4 r))"

definition mem_readElement_Hash :: "byte list \<Rightarrow> Hash \<Rightarrow> (Hash \<times> error option) \<times> byte list" where
  "mem_readElement_Hash r old =
     (if length r < 32
      then ((Abs_Hash (r @ drop (length r) (Rep_Hash old)), Some (short_read r)), [])
      else ((Abs_Hash (take 32 r), None), drop 32 r))"

definition mem_wire :: "(byte list, byte list) wire" where
  "mem_wire =
     \<lparr>BIP0037Version = 70001,
      WriteVarBytes = mem_WriteVarBytes,
      ReadVarBytes = mem_ReadVarBytes,
      writeElement_FilterType = mem_writeElement_FilterType,
      writeElement_uint32 = mem_writeElement_uint32,
      writeElement_Hash = mem_writeElement_Hash,
      readElement_FilterType = mem_readElement_FilterType,
      readElement_uint32 = mem_readElement_uint32,
      readElement_Hash = mem_readElement_Hash\<rparr>"

definition closed_wire :: "(unit, byte list) wire" where
  "closed_wire =
     \<lparr>BIP0037Version = 70001,
      WriteVarBytes = (\<lambda>w pver d. (Some ErrClosedPipe, w)),
      ReadVarBytes = mem_ReadVarBytes,
      writeElement_FilterType = (\<lambda>w v. (Some ErrClosedPipe, w)),
      writeElement_uint32 = (\<lambda>w v. (Some ErrClosedPipe, w)),
      writeElement_Hash = (\<lambda>w v. (Some ErrClosedPipe, w)),
      readElement_FilterType = mem_readElement_FilterType,
      readElement_uint32 = mem_readElement_uint32,
      readElement_Hash = mem_readElement_Hash\<rparr>"

lift_definition sample_hash :: Hash is "replicate 32 7"
  by simp


section \<open>Package netsync: the sync manager's handling of headers\<close>

text \<open>
  Of package netsync the sources hold the interface file only. The sync manager itself,
  with its decision loop and its handlers (\<^verbatim>\<open>netsync/manager.go\<close>), is not among them;
  what follows is taken from sections 3 and 4 of the specification. It covers the data
  model, the selection of the sync peer (section 4.3) and the handling of a headers
  message (section 4.4, headers-first). The block-download pipeline, inventory handling
  and the mempool gateway are not part of it.
\<close>

type_synonym peer_id = nat

text \<open>
  Modelled from the spec: the inventory fingerprint of section 3 (the type of
  \<^verbatim>\<open>manager.go\<close> is missing), a tagged variant whose equality is by tag and hash.
\<close>

datatype fingerprint =
    Block Hash
  | Tx Hash
  | FilteredBlock Hash
  | WitnessBlock Hash
  | WitnessTx Hash

text \<open>
  Modelled from the spec: the per-peer state \<open>PeerSyncState\<close> of section 3 (missing with
  \<^verbatim>\<open>manager.go\<close>), with the self-reported height that section 4.3 reads.
\<close>

record PeerSyncState =
  requestedTxns :: "fingerprint set"
  requestedBlocks :: "fingerprint set"
  knownInventory :: "fingerprint list"
  syncCandidate :: bool
  peerHeight :: int
  stallDeadline :: "nat option"
  lastAnnouncedBlock :: "fingerprint option"

text \<open>
  Modelled from the spec: a block header, as far as section 4.4 uses it (its own hash
  and the hash of its parent); the header type is missing from the sources.
\<close>

record BlockHeader =
  blockHash :: Hash
  prevBlock :: Hash

text \<open>
  Modelled from the spec: the collaborator \<open>Chain\<close> of section 1, consumed through its
  interface only: the proof-of-work check of a header, the local best-known header and
  its height, and the block locator of a tip.
\<close>

record Chain =
  checkProofOfWork :: "BlockHeader \<Rightarrow> bool"
  bestHash :: Hash
  bestHeight :: int
  blockLocator :: "Hash \<Rightarrow> Hash list"

text \<open>Modelled from the spec: the global node states of section 4.7.\<close>

datatype node_state = Discovering | SyncingHeaders | SyncingBlocks | Current

text \<open>
  Modelled from the spec: what the decision loop hands back after an event (section 2:
  outbound message intents and peer bans), as far as the handlers below produce them.
\<close>

datatype intent =
    SendGetHeaders peer_id "Hash list"
  | ArmStallTimer peer_id
  | BanPeer peer_id
  | DisconnectPeer peer_id

text \<open>
  Modelled from the spec: the state owned by the decision task (section 3): the peer
  state table, with the order in which the peers were added, the \<open>RequestedMap\<close>, the
  \<open>HeaderChain\<close>, the current sync peer, the node state, and the peers banned so far.
\<close>

record SyncManager =
  peerStates :: "peer_id \<rightharpoonup> PeerSyncState"
  peerOrder :: "peer_id list"
  requestedMap :: "fingerprint \<rightharpoonup> peer_id"
  headerChain :: "BlockHeader list"
  syncPeer :: "peer_id option"
  nodeState :: node_state
  banned :: "peer_id set"

text \<open>Modelled from the spec: the size of a full headers batch (section 4.4).\<close>

definition MaxHeadersPerBatch :: nat where
  "MaxHeadersPerBatch = 2000"

text \<open>
  Modelled from the spec: the candidate set of section 4.3, peers with \<open>syncCandidate\<close>
  true and a self-reported height of at least the local best height. A banned peer is
  disconnected and is no candidate.
\<close>

definition isSyncCandidate :: "Chain \<Rightarrow> SyncManager \<Rightarrow> peer_id \<Rightarrow> bool" where
  "isSyncCandidate chain sm p =
     (case peerStates sm p of
        None \<Rightarrow> False
      | Some st \<Rightarrow> syncCandidate st \<and> bestHeight chain \<le> peerHeight st \<and> p \<notin> banned sm)"

text \<open>
  Modelled from the spec: the sync-peer selector of section 4.3. If the candidate set is
  not empty, the first candidate by insertion order is chosen, a getheaders starting
  from the local block locator is emitted and a stall timer is armed; with no candidate
  the node is in state \<open>Discovering\<close>.
\<close>

definition selectSyncPeer :: "Chain \<Rightarrow> SyncManager \<Rightarrow> SyncManager \<times> intent list" where
  "selectSyncPeer chain sm =
     (case filter (isSyncCandidate chain sm) (peerOrder sm) of
        [] \<Rightarrow> (sm\<lparr>syncPeer := None, nodeState := Discovering\<rparr>, [])
      | p # _ \<Rightarrow>
          (sm\<lparr>syncPeer := Some p, nodeState := SyncingHeaders\<rparr>,
           [SendGetHeaders p (blockLocator chain (bestHash chain)), ArmStallTimer p]))"

text \<open>
  Modelled from the spec: the header that a new batch must link to, the tip of the
  \<open>HeaderChain\<close>, or the local best-known header while the \<open>HeaderChain\<close> is empty
  (section 3, global invariant 2).
\<close>

definition headerTip :: "Chain \<Rightarrow> SyncManager \<Rightarrow> Hash" where
  "headerTip chain sm =
     (if headerChain sm = [] then bestHash chain else blockHash (last (headerChain sm)))"

text \<open>
  Modelled from the spec: the verification of a batch (section 4.4), each header's proof
  of work and its parent linkage to the preceding header.
\<close>

fun verifyHeaders :: "(BlockHeader \<Rightarrow> bool) \<Rightarrow> Hash \<Rightarrow> BlockHeader list \<Rightarrow> bool" where
  "verifyHeaders pow prev [] = True"
| "verifyHeaders pow prev (h # hs) =
     (pow h \<and> prevBlock h = prev \<and> verifyHeaders pow (blockHash h) hs)"

text \<open>
  Modelled from the spec: the handler of a headers message (section 4.4). The whole
  batch is rejected if any header fails; the sender is then banned and disconnected and
  a sync peer is selected anew (section 4.3, re-selection triggers). Otherwise the batch
  is appended to the \<open>HeaderChain\<close>; a full batch is followed by a request for the next
  one with the new tip's locator, any other by the transition to the block-download
  phase.
\<close>

definition handleHeadersMsg ::
  "Chain \<Rightarrow> SyncManager \<Rightarrow> peer_id \<Rightarrow> BlockHeader list \<Rightarrow> SyncManager \<times> intent list" where
  "handleHeadersMsg chain sm p hs =
     (if verifyHeaders (checkProofOfWork chain) (headerTip chain sm) hs
      then
        (let sm' = sm\<lparr>headerChain := headerChain sm @ hs\<rparr> in
         if length hs = MaxHeadersPerBatch
         then (sm', [SendGetHeaders p (blockLocator chain (headerTip chain sm'))])
         else (sm'\<lparr>nodeState := SyncingBlocks\<rparr>, []))
      else
        (case selectSyncPeer chain (sm\<lparr>banned := insert p (banned sm)\<rparr>) of
           (sm', out) \<Rightarrow> (sm', BanPeer p # DisconnectPeer p # out)))"

text \<open>
  What it means for the header at position \<open>i\<close> of a batch to pass: its proof of work
  is valid and its parent is the header before it, the tip for the first one.
\<close>

definition headerOk :: "(BlockHeader \<Rightarrow> bool) \<Rightarrow> Hash \<Rightarrow> BlockHeader list \<Rightarrow> nat \<Rightarrow> bool" where
  "headerOk pow prev hs i \<longleftrightarrow>
     pow (hs ! i) \<and> prevBlock (hs ! i) = (if i = 0 then prev else blockHash (hs ! (i - 1)))"

subsection \<open>Sample data\<close>

text \<open>
  A chain of headers numbered from \<open>k\<close>, each linked to the one before; a chain
  collaborator that accepts every proof of work; a manager with two candidate peers,
  the first of them the sync peer; and a batch whose second header names a wrong parent.
\<close>

definition hashOf :: "nat \<Rightarrow> Hash" where
  "hashOf n = Abs_Hash (le_bytes 32 n)"

fun sampleHeaders :: "nat \<Rightarrow> nat \<Rightarrow> BlockHeader list" where
  "sampleHeaders k 0 = []"
| "sampleHeaders k (Suc n) =
     \<lparr>blockHash = hashOf (Suc k), prevBlock = hashOf k\<rparr> # sampleHeaders (Suc k) n"

definition sampleChain :: Chain where
  "sampleChain =
     \<lparr>checkProofOfWork = (\<lambda>h. True),
      bestHash = hashOf 0,
      bestHeight = 0,
      blockLocator = (\<lambda>h. [h, hashOf 0])\<rparr>"

definition samplePeer :: PeerSyncState where
  "samplePeer =
     \<lparr>requestedTxns = {}, requestedBlocks = {}, knownInventory = [],
      syncCandidate = True, peerHeight = 1000, stallDeadline = None,
      lastAnnouncedBlock = None\<rparr>"

definition sampleManager :: SyncManager where
  "sampleManager =
     \<lparr>peerStates = [1 \<mapsto> samplePeer, 2 \<mapsto> samplePeer],
      peerOrder = [1, 2],
      requestedMap = Map.empty,
      headerChain = [],
      syncPeer = Some 1,
      nodeState = SyncingHeaders,
      banned = {}\<rparr>"

definition badBatch :: "BlockHeader list" where
  "badBatch =
     [\<lparr>blockHash = hashOf 1, prevBlock = hashOf 0\<rparr>,
      \<lparr>blockHash = hashOf 2, prevBlock = hashOf 7\<rparr>]"

section \<open>Properties of the wire messages\<close>

subsection \<open>The in-memory helpers meet the hypotheses\<close>

lemma length_le_bytes [simp]: "length (le_bytes k n) = k"
  by (induction k arbitrary: n) auto

lemma le_nat_le_bytes: "n < 256 ^ k \<Longrightarrow> le_nat (le_bytes k n) = n"
proof (induction k arbitrary: n)
  case 0
  then show ?case by simp
next
  case (Suc k)
  have "n div 256 < 256 ^ k"
    using Suc.prems by (simp add: less_mult_imp_div_less mult.commute)
  then have "le_nat (le_bytes k (n div 256)) = n div 256"
    by (rule Suc.IH)
  moreover have "unat (of_nat (n mod 256) :: byte) = n mod 256"
    by (simp add: unat_of_nat)
  ultimately show ?case by simp
qed

lemma mem_ReadVarInt_WriteVarInt:
  assumes "n < 2 ^ 64"
  shows "mem_ReadVarInt (mem_WriteVarInt n @ rest) = ((n, None), rest)"
proof -
  consider "n < 0xfd" | "0xfd \<le> n" "n \<le> 0xffff" | "0xffff < n" "n \<le> 0xffffffff" | "0xffffffff < n"
    by linarith
  then show ?thesis
  proof cases
    case 1
    then have "unat (of_nat n :: byte) = n"
      by (simp add: unat_of_nat)
    moreover from this 1 have "(of_nat n :: byte) < 0xfd"
      by (simp add: word_less_nat_alt)
    ultimately show ?thesis
      using 1 by (simp add: mem_ReadVarInt_def mem_WriteVarInt_def)
  next
    case 2
    then have "le_nat (le_bytes 2 n) = n"
      by (intro le_nat_le_bytes) simp
    then show ?thesis
      using 2 by (simp add: mem_ReadVarInt_def mem_WriteVarInt_def)
  next
    case 3
    then have "le_nat (le_bytes 4 n) = n"
      by (intro le_nat_le_bytes) simp
    then show ?thesis
      using 3 by (simp add: mem_ReadVarInt_def mem_WriteVarInt_def)
  next
    case 4
    from assms have "le_nat (le_bytes 8 n) = n"
      by (intro le_nat_le_bytes) simp
    then show ?thesis
      using 4 by (simp add: mem_ReadVarInt_def mem_WriteVarInt_def)
  qed
qed

lemma mem_varbytes:
  assumes "length d \<le> unat maxAllowed"
  shows "mem_ReadVarBytes (mem_WriteVarInt (length d) @ d @ rest) pver maxAllowed fieldName
           = ((d, None), rest)"
proof -
  have "unat maxAllowed < 2 ^ 32"
    using unsigned_less [of maxAllowed] by simp
  with assms have "length d < 2 ^ 64"
    by simp
  then have "mem_ReadVarInt (mem_WriteVarInt (length d) @ d @ rest) = ((length d, None), d @ rest)"
    by (rule mem_ReadVarInt_WriteVarInt)
  then show ?thesis
    using assms by (simp add: mem_ReadVarBytes_def)
qed


lemma mem_wire_varbytes_roundtrip: "varbytes_roundtrip mem_wire maxAllowed fieldName"
  unfolding varbytes_roundtrip_def
proof (intro allI impI)
  fix pver :: uint32 and d buf :: "byte list"
  assume "length d \<le> unat maxAllowed"
  then have "\<forall>rest. mem_ReadVarBytes ((mem_WriteVarInt (length d) @ d) @ rest) pver maxAllowed fieldName
      = ((d, None), rest)"
    by (simp add: mem_varbytes)
  then show "\<exists>bs. WriteVarBytes mem_wire buf pver d = (None, buf @ bs) \<and>
      (\<forall>rest. ReadVarBytes mem_wire (bs @ rest) pver maxAllowed fieldName = ((d, None), rest))"
    by (intro exI [of _ "mem_WriteVarInt (length d) @ d"])
       (simp add: mem_wire_def mem_WriteVarBytes_def)
qed

lemma mem_uint32_roundtrip: "word_of_nat (le_nat (le_bytes 4 (unat (v :: uint32)))) = v"
proof -
  have "unat v < 256 ^ 4"
    using unsigned_less [of v] by simp
  then have "le_nat (le_bytes 4 (unat v)) = unat v"
    by (rule le_nat_le_bytes)
  then show ?thesis by simp
qed

lemma length_Rep_Hash [simp]: "length (Rep_Hash h) = 32"
  using Rep_Hash [of h] by simp

lemma mem_wire_elements_roundtrip: "elements_roundtrip mem_wire"
  unfolding elements_roundtrip_def
proof (intro conjI allI)
  fix buf :: "byte list" and v :: byte
  show "\<exists>bs. writeElement_FilterType mem_wire buf v = (None, buf @ bs) \<and>
      (\<forall>rest old. readElement_FilterType mem_wire (bs @ rest) old = ((v, None), rest))"
    by (intro exI [of _ "[v]"])
       (simp add: mem_wire_def mem_writeElement_FilterType_def mem_readElement_FilterType_def)
next
  fix buf :: "byte list" and v :: uint32
  show "\<exists>bs. writeElement_uint32 mem_wire buf v = (None, buf @ bs) \<and>
      (\<forall>rest old. readElement_uint32 mem_wire (bs @ rest) old = ((v, None), rest))"
    by (intro exI [of _ "le_bytes 4 (unat v)"])
       (simp add: mem_wire_def mem_writeElement_uint32_def mem_readElement_uint32_def
          mem_uint32_roundtrip)
next
  fix buf :: "byte list" and v :: Hash
  show "\<exists>bs. writeElement_Hash mem_wire buf v = (None, buf @ bs) \<and>
      (\<forall>rest old. readElement_Hash mem_wire (bs @ rest) old = ((v, None), rest))"
    by (intro exI [of _ "Rep_Hash v"])
       (simp add: mem_wire_def mem_writeElement_Hash_def mem_readElement_Hash_def Rep_Hash_inverse)
qed


subsection \<open>MsgFilterAdd\<close>

text \<open>
  Claim C8. For every byte string \<open>d\<close> of at most \<open>MaxFilterAddDataSize\<close> (520) bytes and
  every protocol version \<open>pver\<close> of at least \<open>BIP0037Version\<close>, encoding a
  \<open>MsgFilterAdd\<close> with data \<open>d\<close> by \<open>BronEncode\<close> succeeds, and decoding the bytes it
  wrote by \<open>BronDecode\<close> at the same \<open>pver\<close> succeeds and yields a message whose
  \<open>Data\<close> is \<open>d\<close>. The helpers \<^verbatim>\<open>WriteVarBytes\<close> and \<^verbatim>\<open>ReadVarBytes\<close> are parameters,
  assumed to invert each other on payloads within the limit that \<open>BronDecode\<close> passes.
\<close>

theorem filteradd_roundtrip:
  assumes "varbytes_roundtrip wr (of_nat MaxFilterAddDataSize) ''filteradd data''"
    and "length d \<le> MaxFilterAddDataSize"
    and "BIP0037Version wr \<le> pver"
  shows "\<exists>bs. MsgFilterAdd_BronEncode wr \<lparr>Data = d\<rparr> buf pver enc = (None, buf @ bs) \<and>
    MsgFilterAdd_BronDecode wr msg (bs @ rest) pver enc' = (None, msg\<lparr>Data := d\<rparr>, rest)"
proof -
  have "unat (of_nat MaxFilterAddDataSize :: uint32) = MaxFilterAddDataSize"
    by (simp add: MaxFilterAddDataSize_def)
  with assms(2) have "length d \<le> unat (of_nat MaxFilterAddDataSize :: uint32)"
    by simp
  with assms(1) obtain bs where
    w: "WriteVarBytes wr buf pver d = (None, buf @ bs)" and
    r: "ReadVarBytes wr (bs @ rest) pver (of_nat MaxFilterAddDataSize) ''filteradd data''
          = ((d, None), rest)"
    unfolding varbytes_roundtrip_def by blast
  from assms(3) have v: "\<not> pver < BIP0037Version wr"
    by simp
  have "MsgFilterAdd_BronEncode wr \<lparr>Data = d\<rparr> buf pver enc = (None, buf @ bs)"
    using assms(2) v w by (simp add: MsgFilterAdd_BronEncode_def)
  moreover have "MsgFilterAdd_BronDecode wr msg (bs @ rest) pver enc' = (None, msg\<lparr>Data := d\<rparr>, rest)"
    using v r by (simp add: MsgFilterAdd_BronDecode_def)
  ultimately show ?thesis by blast
qed

theorem filteradd_roundtrip_witness:
  "varbytes_roundtrip mem_wire (of_nat MaxFilterAddDataSize) ''filteradd data'' \<and>
   length [1, 2, 3 :: byte] \<le> MaxFilterAddDataSize \<and>
   BIP0037Version mem_wire \<le> 70001 \<and>
   MsgFilterAdd_BronEncode mem_wire \<lparr>Data = [1, 2, 3]\<rparr> [] 70001 BaseEncoding
     = (None, [3, 1, 2, 3]) \<and>
   MsgFilterAdd_BronDecode mem_wire \<lparr>Data = []\<rparr> [3, 1, 2, 3] 70001 BaseEncoding
     = (None, \<lparr>Data = [1, 2, 3]\<rparr>, [])"
proof -
  have h1: "varbytes_roundtrip mem_wire (of_nat MaxFilterAddDataSize) ''filteradd data''"
    by (rule mem_wire_varbytes_roundtrip)
  have h2: "length [1, 2, 3 :: byte] \<le> MaxFilterAddDataSize"
    by (simp add: MaxFilterAddDataSize_def)
  have h3: "BIP0037Version mem_wire \<le> 70001"
    by (simp add: mem_wire_def)
  have enc: "MsgFilterAdd_BronEncode mem_wire \<lparr>Data = [1, 2, 3]\<rparr> [] 70001 BaseEncoding
      = (None, [3, 1, 2, 3])"
    by (simp add: MsgFilterAdd_BronEncode_def mem_wire_def MaxFilterAddDataSize_def
        mem_WriteVarBytes_def mem_WriteVarInt_def)
  from filteradd_roundtrip [OF h1 h2 h3, of "[]" BaseEncoding "\<lparr>Data = []\<rparr>" "[]" BaseEncoding]
  have "MsgFilterAdd_BronDecode mem_wire \<lparr>Data = []\<rparr> [3, 1, 2, 3] 70001 BaseEncoding
      = (None, \<lparr>Data = [1, 2, 3]\<rparr>, [])"
    by (simp add: enc)
  with h1 h2 h3 enc show ?thesis by simp
qed


text \<open>
  Claim C9, as the code has it. \<open>BronEncode\<close> returns an error if and only if the
  protocol version is below \<open>BIP0037Version\<close>, or the data is longer than
  \<open>MaxFilterAddDataSize\<close>, or \<^verbatim>\<open>WriteVarBytes\<close> fails on the writer. When one of the
  first two holds, the error is the function's own message error and the writer is left
  as it was; otherwise the result is exactly the result of \<^verbatim>\<open>WriteVarBytes\<close>.
\<close>

theorem filteradd_encode_error:
  "(fst (MsgFilterAdd_BronEncode wr msg w pver enc) \<noteq> None \<longleftrightarrow>
      pver < BIP0037Version wr \<or> MaxFilterAddDataSize < length (Data msg) \<or>
      fst (WriteVarBytes wr w pver (Data msg)) \<noteq> None) \<and>
   (pver < BIP0037Version wr \<or> MaxFilterAddDataSize < length (Data msg) \<longrightarrow>
      MsgFilterAdd_BronEncode wr msg w pver enc
        = (Some (MessageError ''MsgFilterAdd.BronEncode''), w)) \<and>
   (\<not> (pver < BIP0037Version wr \<or> MaxFilterAddDataSize < length (Data msg)) \<longrightarrow>
      MsgFilterAdd_BronEncode wr msg w pver enc = WriteVarBytes wr w pver (Data msg))"
  by (simp add: MsgFilterAdd_BronEncode_def Let_def)

theorem filteradd_encode_error_witness:
  "60002 < BIP0037Version mem_wire \<and>
   MsgFilterAdd_BronEncode mem_wire \<lparr>Data = [1, 2, 3]\<rparr> [9] 60002 BaseEncoding
     = (Some (MessageError ''MsgFilterAdd.BronEncode''), [9]) \<and>
   \<not> (70002 < BIP0037Version mem_wire \<or> MaxFilterAddDataSize < length (Data \<lparr>Data = [1, 2, 3 :: byte]\<rparr>)) \<and>
   MsgFilterAdd_BronEncode mem_wire \<lparr>Data = [1, 2, 3]\<rparr> [9] 70002 BaseEncoding
     = (None, [9, 3, 1, 2, 3])"
proof -
  have g: "60002 < BIP0037Version mem_wire"
    by (simp add: mem_wire_def)
  have n: "\<not> (70002 < BIP0037Version mem_wire \<or> MaxFilterAddDataSize < length (Data \<lparr>Data = [1, 2, 3 :: byte]\<rparr>))"
    by (simp add: mem_wire_def MaxFilterAddDataSize_def)
  have w: "WriteVarBytes mem_wire [9] 70002 [1, 2, 3] = (None, [9, 3, 1, 2, 3])"
    by (simp add: mem_wire_def mem_WriteVarBytes_def mem_WriteVarInt_def)
  from g filteradd_encode_error [of mem_wire "\<lparr>Data = [1, 2, 3]\<rparr>" "[9]" 60002 BaseEncoding]
  have e1: "MsgFilterAdd_BronEncode mem_wire \<lparr>Data = [1, 2, 3]\<rparr> [9] 60002 BaseEncoding
     = (Some (MessageError ''MsgFilterAdd.BronEncode''), [9])"
    by blast
  from n filteradd_encode_error [of mem_wire "\<lparr>Data = [1, 2, 3]\<rparr>" "[9]" 70002 BaseEncoding]
  have "MsgFilterAdd_BronEncode mem_wire \<lparr>Data = [1, 2, 3]\<rparr> [9] 70002 BaseEncoding
     = WriteVarBytes mem_wire [9] 70002 (Data \<lparr>Data = [1, 2, 3]\<rparr>)"
    by blast
  with w have e2: "MsgFilterAdd_BronEncode mem_wire \<lparr>Data = [1, 2, 3]\<rparr> [9] 70002 BaseEncoding
     = (None, [9, 3, 1, 2, 3])"
    by simp
  from g e1 n e2 show ?thesis by blast
qed


text \<open>
  The claim without the third case fails: on a closed writer \<open>BronEncode\<close> returns the
  writer's error although the version and the size are both in range.
\<close>

theorem filteradd_encode_error_counterexample:
  "\<not> (fst (MsgFilterAdd_BronEncode closed_wire \<lparr>Data = [1, 2, 3]\<rparr> () 70001 BaseEncoding) \<noteq> None
        \<longleftrightarrow> 70001 < BIP0037Version closed_wire
             \<or> MaxFilterAddDataSize < length (Data \<lparr>Data = [1, 2, 3 :: byte]\<rparr>))"
  by (simp add: MsgFilterAdd_BronEncode_def closed_wire_def MaxFilterAddDataSize_def)


subsection \<open>MsgGetCFilters\<close>

text \<open>
  Claim C10. Encoding and decoding a \<open>MsgGetCFilters\<close> check no protocol version: for
  all protocol versions \<open>pver\<close> and \<open>pver'\<close> (below \<open>BIP0037Version\<close> and
  \<open>FeeFilterVersion\<close> included) and every filter type, start height and stop hash,
  \<open>BronEncode\<close> succeeds and \<open>BronDecode\<close> of the bytes it wrote recovers exactly the
  same three fields. The helpers \<^verbatim>\<open>writeElement\<close> and \<^verbatim>\<open>readElement\<close> are parameters,
  assumed to invert each other at the three field types.
\<close>

theorem getcfilters_roundtrip:
  assumes "elements_roundtrip wr"
  shows "\<exists>bs.
    MsgGetCFilters_BronEncode wr \<lparr>FilterType = ft, StartHeight = sh, StopHash = h\<rparr> buf pver enc
      = (None, buf @ bs) \<and>
    MsgGetCFilters_BronDecode wr msg (bs @ rest) pver' enc'
      = (None, \<lparr>FilterType = ft, StartHeight = sh, StopHash = h\<rparr>, rest)"
proof -
  from assms obtain b1 where
    w1: "writeElement_FilterType wr buf ft = (None, buf @ b1)" and
    r1: "\<And>rest old. readElement_FilterType wr (b1 @ rest) old = ((ft, None), rest)"
    unfolding elements_roundtrip_def by blast
  from assms obtain b2 where
    w2: "writeElement_uint32 wr (buf @ b1) sh = (None, (buf @ b1) @ b2)" and
    r2: "\<And>rest old. readElement_uint32 wr (b2 @ rest) old = ((sh, None), rest)"
    unfolding elements_roundtrip_def by blast
  from assms obtain b3 where
    w3: "writeElement_Hash wr ((buf @ b1) @ b2) h = (None, ((buf @ b1) @ b2) @ b3)" and
    r3: "\<And>rest old. readElement_Hash wr (b3 @ rest) old = ((h, None), rest)"
    unfolding elements_roundtrip_def by blast
  have "MsgGetCFilters_BronEncode wr \<lparr>FilterType = ft, StartHeight = sh, StopHash = h\<rparr> buf pver enc
      = (None, buf @ (b1 @ b2 @ b3))"
    using w1 w2 w3 by (simp add: MsgGetCFilters_BronEncode_def)
  moreover have "MsgGetCFilters_BronDecode wr msg ((b1 @ b2 @ b3) @ rest) pver' enc'
      = (None, \<lparr>FilterType = ft, StartHeight = sh, StopHash = h\<rparr>, rest)"
    using r1 [of "b2 @ b3 @ rest"] r2 [of "b3 @ rest"] r3 [of rest]
    by (simp add: MsgGetCFilters_BronDecode_def)
  ultimately show ?thesis by blast
qed


theorem getcfilters_roundtrip_witness:
  "elements_roundtrip mem_wire \<and>
   fst (MsgGetCFilters_BronEncode mem_wire
          \<lparr>FilterType = 0, StartHeight = 258, StopHash = sample_hash\<rparr> [] 1 BaseEncoding) = None \<and>
   MsgGetCFilters_BronDecode mem_wire
       \<lparr>FilterType = 9, StartHeight = 0, StopHash = Abs_Hash (replicate 32 0)\<rparr>
       (snd (MsgGetCFilters_BronEncode mem_wire
          \<lparr>FilterType = 0, StartHeight = 258, StopHash = sample_hash\<rparr> [] 1 BaseEncoding))
       1 BaseEncoding
     = (None, \<lparr>FilterType = 0, StartHeight = 258, StopHash = sample_hash\<rparr>, [])"
proof -
  have h: "elements_roundtrip mem_wire"
    by (rule mem_wire_elements_roundtrip)
  from getcfilters_roundtrip [OF h, of 0 258 sample_hash "[]" 1 BaseEncoding
      "\<lparr>FilterType = 9, StartHeight = 0, StopHash = Abs_Hash (replicate 32 0)\<rparr>" "[]" 1 BaseEncoding]
  obtain bs where
    "MsgGetCFilters_BronEncode mem_wire
        \<lparr>FilterType = 0, StartHeight = 258, StopHash = sample_hash\<rparr> [] 1 BaseEncoding = (None, bs)"
    "MsgGetCFilters_BronDecode mem_wire
        \<lparr>FilterType = 9, StartHeight = 0, StopHash = Abs_Hash (replicate 32 0)\<rparr> bs 1 BaseEncoding
      = (None, \<lparr>FilterType = 0, StartHeight = 258, StopHash = sample_hash\<rparr>, [])"
    by auto
  with h show ?thesis by simp
qed


section \<open>Properties of the headers handler\<close>

lemma verifyHeaders_iff:
  "verifyHeaders pow prev hs \<longleftrightarrow> (\<forall>i<length hs. headerOk pow prev hs i)"
proof (induction hs arbitrary: prev)
  case Nil
  then show ?case by simp
next
  case (Cons h hs)
  have "(\<forall>i<length (h # hs). headerOk pow prev (h # hs) i) \<longleftrightarrow>
        headerOk pow prev (h # hs) 0 \<and> (\<forall>i<length hs. headerOk pow prev (h # hs) (Suc i))"
    by (auto simp: less_Suc_eq_0_disj)
  moreover have "headerOk pow prev (h # hs) (Suc i) = headerOk pow (blockHash h) hs i" for i
    by (cases i) (simp_all add: headerOk_def)
  moreover have "headerOk pow prev (h # hs) 0 \<longleftrightarrow> pow h \<and> prevBlock h = prev"
    by (simp add: headerOk_def)
  ultimately show ?case
    using Cons.IH [of "blockHash h"] by simp
qed

lemma selectSyncPeer_not_banned:
  "p \<in> banned sm \<Longrightarrow> syncPeer (fst (selectSyncPeer chain sm)) \<noteq> Some p"
proof -
  assume b: "p \<in> banned sm"
  show ?thesis
  proof (cases "filter (isSyncCandidate chain sm) (peerOrder sm)")
    case Nil
    then show ?thesis by (simp add: selectSyncPeer_def)
  next
    case (Cons q qs)
    then have "q \<in> set (filter (isSyncCandidate chain sm) (peerOrder sm))"
      by simp
    then have "isSyncCandidate chain sm q"
      by simp
    with b have "q \<noteq> p"
      by (auto simp: isSyncCandidate_def split: option.splits)
    with Cons show ?thesis by (simp add: selectSyncPeer_def)
  qed
qed

lemma selectSyncPeer_frame:
  "headerChain (fst (selectSyncPeer chain sm)) = headerChain sm"
  "banned (fst (selectSyncPeer chain sm)) = banned sm"
  by (simp_all add: selectSyncPeer_def split: list.splits)

lemma hashOf_eq_iff: "a < 256 ^ 32 \<Longrightarrow> b < 256 ^ 32 \<Longrightarrow> hashOf a = hashOf b \<longleftrightarrow> a = b"
proof
  assume a: "a < 256 ^ 32" and b: "b < 256 ^ 32" and "hashOf a = hashOf b"
  then have "le_bytes 32 a = le_bytes 32 b"
    by (simp add: hashOf_def Abs_Hash_inject)
  then have "le_nat (le_bytes 32 a) = le_nat (le_bytes 32 b)"
    by simp
  with a b show "a = b"
    by (simp add: le_nat_le_bytes)
qed simp

lemma verify_sampleHeaders: "verifyHeaders (\<lambda>h. True) (hashOf k) (sampleHeaders k n)"
  by (induction n arbitrary: k) simp_all

lemma length_sampleHeaders [simp]: "length (sampleHeaders k n) = n"
  by (induction n arbitrary: k) simp_all


text \<open>
  Claim C3. Processing a headers message is atomic with respect to the \<open>HeaderChain\<close>:
  if any header of the batch fails its proof of work or its parent linkage, the whole
  batch is rejected, the \<open>HeaderChain\<close> is left unchanged, the sending peer is banned
  and a sync peer is selected anew, which is never the banned sender; the headers are
  appended only when every header of the batch verifies, and then all of them are.
\<close>

theorem headers_batch_atomic:
  "((\<exists>i<length hs. \<not> headerOk (checkProofOfWork chain) (headerTip chain sm) hs i) \<longrightarrow>
      headerChain (fst (handleHeadersMsg chain sm p hs)) = headerChain sm \<and>
      p \<in> banned (fst (handleHeadersMsg chain sm p hs)) \<and>
      BanPeer p \<in> set (snd (handleHeadersMsg chain sm p hs)) \<and>
      syncPeer (fst (handleHeadersMsg chain sm p hs)) \<noteq> Some p \<and>
      fst (handleHeadersMsg chain sm p hs)
        = fst (selectSyncPeer chain (sm\<lparr>banned := insert p (banned sm)\<rparr>))) \<and>
   ((\<forall>i<length hs. headerOk (checkProofOfWork chain) (headerTip chain sm) hs i) \<longrightarrow>
      headerChain (fst (handleHeadersMsg chain sm p hs)) = headerChain sm @ hs \<and>
      banned (fst (handleHeadersMsg chain sm p hs)) = banned sm \<and>
      syncPeer (fst (handleHeadersMsg chain sm p hs)) = syncPeer sm)"
proof (cases "verifyHeaders (checkProofOfWork chain) (headerTip chain sm) hs")
  case True
  then have "\<forall>i<length hs. headerOk (checkProofOfWork chain) (headerTip chain sm) hs i"
    by (simp add: verifyHeaders_iff)
  with True show ?thesis
    by (auto simp: handleHeadersMsg_def Let_def)
next
  case False
  then have f: "\<exists>i<length hs. \<not> headerOk (checkProofOfWork chain) (headerTip chain sm) hs i"
    by (simp add: verifyHeaders_iff)
  let ?b = "sm\<lparr>banned := insert p (banned sm)\<rparr>"
  have r: "handleHeadersMsg chain sm p hs
      = (fst (selectSyncPeer chain ?b), BanPeer p # DisconnectPeer p # snd (selectSyncPeer chain ?b))"
    using False by (simp add: handleHeadersMsg_def split: prod.splits)
  have "syncPeer (fst (selectSyncPeer chain ?b)) \<noteq> Some p"
    by (rule selectSyncPeer_not_banned) simp
  with f r show ?thesis
    by (auto simp: selectSyncPeer_frame)
qed

theorem headers_batch_atomic_witness:
  "\<not> headerOk (checkProofOfWork sampleChain) (headerTip sampleChain sampleManager) badBatch 1 \<and>
   headerChain (fst (handleHeadersMsg sampleChain sampleManager 1 badBatch)) = [] \<and>
   banned (fst (handleHeadersMsg sampleChain sampleManager 1 badBatch)) = {1} \<and>
   syncPeer (fst (handleHeadersMsg sampleChain sampleManager 1 badBatch)) = Some 2 \<and>
   verifyHeaders (checkProofOfWork sampleChain) (headerTip sampleChain sampleManager)
     (sampleHeaders 0 3) \<and>
   headerChain (fst (handleHeadersMsg sampleChain sampleManager 1 (sampleHeaders 0 3)))
     = sampleHeaders 0 3"
proof -
  have "hashOf 7 \<noteq> hashOf 1"
    by (simp add: hashOf_eq_iff)
  then have bad: "\<not> headerOk (checkProofOfWork sampleChain) (headerTip sampleChain sampleManager)
      badBatch 1"
    by (simp add: headerOk_def badBatch_def)
  then have ex: "\<exists>i<length badBatch.
      \<not> headerOk (checkProofOfWork sampleChain) (headerTip sampleChain sampleManager) badBatch i"
    by (intro exI [of _ 1]) (simp add: badBatch_def)
  have sel: "fst (selectSyncPeer sampleChain (sampleManager\<lparr>banned := insert 1 (banned sampleManager)\<rparr>))
      = sampleManager\<lparr>banned := {1}, syncPeer := Some 2, nodeState := SyncingHeaders\<rparr>"
    by (simp add: selectSyncPeer_def isSyncCandidate_def sampleManager_def samplePeer_def
        sampleChain_def)
  have v: "verifyHeaders (checkProofOfWork sampleChain) (headerTip sampleChain sampleManager)
      (sampleHeaders 0 3)"
    using verify_sampleHeaders [of 0 3]
    by (simp add: sampleChain_def headerTip_def sampleManager_def)
  then have ok: "\<forall>i<length (sampleHeaders 0 3).
      headerOk (checkProofOfWork sampleChain) (headerTip sampleChain sampleManager)
        (sampleHeaders 0 3) i"
    by (simp only: verifyHeaders_iff)
  from ex headers_batch_atomic [of badBatch sampleChain sampleManager 1]
  have r1: "headerChain (fst (handleHeadersMsg sampleChain sampleManager 1 badBatch))
        = headerChain sampleManager"
    and r2: "fst (handleHeadersMsg sampleChain sampleManager 1 badBatch)
        = fst (selectSyncPeer sampleChain (sampleManager\<lparr>banned := insert 1 (banned sampleManager)\<rparr>))"
    by blast+
  from ok headers_batch_atomic [of "sampleHeaders 0 3" sampleChain sampleManager 1]
  have r3: "headerChain (fst (handleHeadersMsg sampleChain sampleManager 1 (sampleHeaders 0 3)))
        = headerChain sampleManager @ sampleHeaders 0 3"
    by blast
  have "headerChain sampleManager = []"
    by (simp add: sampleManager_def)
  with bad v r1 r2 r3 sel show ?thesis
    by simp
qed

text \<open>
  Claim C4. After a valid headers batch the next action is determined by the size of the
  batch: a batch of exactly 2000 headers is followed by another getheaders request with
  the locator of the new tip, and the node stays in its phase; a batch of fewer than
  2000 headers moves the node to the block-download phase and requests no headers.
\<close>

theorem headers_batch_size:
  assumes "verifyHeaders (checkProofOfWork chain) (headerTip chain sm) hs"
  shows "(length hs = 2000 \<longrightarrow>
            handleHeadersMsg chain sm p hs
              = (sm\<lparr>headerChain := headerChain sm @ hs\<rparr>,
                 [SendGetHeaders p (blockLocator chain (blockHash (last hs)))])) \<and>
         (length hs < 2000 \<longrightarrow>
            handleHeadersMsg chain sm p hs
              = (sm\<lparr>headerChain := headerChain sm @ hs, nodeState := SyncingBlocks\<rparr>, []))"
proof (intro conjI impI)
  assume n: "length hs = 2000"
  then have "hs \<noteq> []"
    by auto
  then have "headerTip chain (sm\<lparr>headerChain := headerChain sm @ hs\<rparr>) = blockHash (last hs)"
    by (simp add: headerTip_def)
  with assms n show "handleHeadersMsg chain sm p hs
      = (sm\<lparr>headerChain := headerChain sm @ hs\<rparr>,
         [SendGetHeaders p (blockLocator chain (blockHash (last hs)))])"
    by (simp add: handleHeadersMsg_def Let_def MaxHeadersPerBatch_def)
next
  assume "length hs < 2000"
  with assms show "handleHeadersMsg chain sm p hs
      = (sm\<lparr>headerChain := headerChain sm @ hs, nodeState := SyncingBlocks\<rparr>, [])"
    by (simp add: handleHeadersMsg_def Let_def MaxHeadersPerBatch_def)
qed


theorem headers_batch_size_witness:
  "verifyHeaders (checkProofOfWork sampleChain) (headerTip sampleChain sampleManager)
     (sampleHeaders 0 2000) \<and>
   length (sampleHeaders 0 2000) = 2000 \<and>
   handleHeadersMsg sampleChain sampleManager 1 (sampleHeaders 0 2000)
     = (sampleManager\<lparr>headerChain := headerChain sampleManager @ sampleHeaders 0 2000\<rparr>,
        [SendGetHeaders 1 (blockLocator sampleChain (blockHash (last (sampleHeaders 0 2000))))]) \<and>
   verifyHeaders (checkProofOfWork sampleChain) (headerTip sampleChain sampleManager)
     (sampleHeaders 0 1999) \<and>
   length (sampleHeaders 0 1999) < 2000 \<and>
   handleHeadersMsg sampleChain sampleManager 1 (sampleHeaders 0 1999)
     = (sampleManager\<lparr>headerChain := headerChain sampleManager @ sampleHeaders 0 1999,
          nodeState := SyncingBlocks\<rparr>, [])"
proof -
  have v: "verifyHeaders (checkProofOfWork sampleChain) (headerTip sampleChain sampleManager)
      (sampleHeaders 0 n)" for n
    using verify_sampleHeaders [of 0 n]
    by (simp add: sampleChain_def headerTip_def sampleManager_def)
  have l1: "length (sampleHeaders 0 2000) = 2000" and l2: "length (sampleHeaders 0 1999) < 2000"
    by simp_all
  from headers_batch_size [OF v, of 2000 1] l1
  have a: "handleHeadersMsg sampleChain sampleManager 1 (sampleHeaders 0 2000)
     = (sampleManager\<lparr>headerChain := headerChain sampleManager @ sampleHeaders 0 2000\<rparr>,
        [SendGetHeaders 1 (blockLocator sampleChain (blockHash (last (sampleHeaders 0 2000))))])"
    by blast
  from headers_batch_size [OF v, of 1999 1] l2
  have b: "handleHeadersMsg sampleChain sampleManager 1 (sampleHeaders 0 1999)
     = (sampleManager\<lparr>headerChain := headerChain sampleManager @ sampleHeaders 0 1999,
          nodeState := SyncingBlocks\<rparr>, [])"
    by blast
  from v l1 l2 a b show ?thesis by blast
qed


end
